theory Spec2Isabelle
  imports Main "HOL-Library.Word"
begin

unbundle bit_operations_syntax

section \<open>The T8030 machine model (hw/arm/t8030.c)\<close>

text \<open>
  The board file \<^verbatim>\<open>hw/arm/t8030.c\<close> does three things that are verified here:
  it keeps a bank of implementation-defined system registers per core, it patches four
  instructions of the loaded kernel, and it lays the boot blobs out in guest physical
  memory.  Physical addresses (\<^verbatim>\<open>hwaddr\<close>) and \<^verbatim>\<open>uint64_t\<close> are 64-bit words,
  so every \<open>+\<close> and \<open>-\<close> below wraps as the C arithmetic does.
\<close>

type_synonym hwaddr = "64 word"
type_synonym uint64_t = "64 word"
type_synonym uint32_t = "32 word"
type_synonym uint8_t = "8 word"

subsection \<open>Constants (lines 41--50)\<close>

definition T8030_PHYS_BASE :: hwaddr where
  "T8030_PHYS_BASE = 0x40000000"

definition CPU_IMPL_REG_BASE :: hwaddr where
  "CPU_IMPL_REG_BASE = 0x210050000"

definition T8030_MAX_DEVICETREE_SIZE :: uint64_t where
  "T8030_MAX_DEVICETREE_SIZE = 0x40000"

definition NOP_INST :: uint32_t where
  "NOP_INST = 0xd503201f"

definition RET_INST :: uint32_t where
  "RET_INST = 0xd65f03c0"

subsection \<open>The per-core register bank (lines 52--188, 365--382)\<close>

text \<open>
  \<^verbatim>\<open>T8030_CPREG_FUNCS(name)\<close> is expanded once for each of the 39 names below and
  generates a read and a write function for the field
  \<^verbatim>\<open>tcpu->T8030_CPREG_VAR_NAME(name)\<close>.  The macro argument becomes a function
  argument of type \<open>cpreg\<close>; the fields of \<^verbatim>\<open>T8030CPU\<close> that the macro names
  become one function from \<open>cpreg\<close> to the stored 64-bit value.
\<close>

datatype cpreg =
    ARM64_REG_HID11
  | ARM64_REG_HID3
  | ARM64_REG_HID5
  | ARM64_REG_HID4
  | ARM64_REG_HID8
  | ARM64_REG_HID7
  | ARM64_REG_LSU_ERR_STS
  | PMC0
  | PMC1
  | PMCR1
  | PMSR
  | L2ACTLR_EL1
  | ARM64_REG_APCTL_EL1
  | ARM64_REG_KERNELKEYLO_EL1
  | ARM64_REG_KERNELKEYHI_EL1
  | ARM64_REG_EHID4
  | S3_4_c15_c0_5
  | S3_4_c15_c1_3
  | S3_4_c15_c1_4
  | ARM64_REG_IPI_SR
  | ARM64_REG_CYC_OVRD
  | ARM64_REG_ACC_CFG
  | ARM64_REG_VMSA_LOCK_EL1
  | S3_6_c15_c1_0
  | S3_6_c15_c1_1
  | S3_6_c15_c1_2
  | S3_6_c15_c1_5
  | S3_6_c15_c1_6
  | S3_6_c15_c1_7
  | S3_6_c15_c3_0
  | S3_6_c15_c3_1
  | S3_6_c15_c8_0
  | S3_6_c15_c8_1
  | S3_6_c15_c8_2
  | S3_6_c15_c8_3
  | S3_6_c15_c9_1
  | UPMPCM
  | UPMCR0
  | UPMSR

record T8030CPU =
  cpu_id :: nat
  T8030_CPREG_VAR_NAME :: "cpreg \<Rightarrow> uint64_t"

text \<open>Lines 53--58: the generated read function returns the field.\<close>

definition T8030_cpreg_read :: "cpreg \<Rightarrow> T8030CPU \<Rightarrow> uint64_t" where
  "T8030_cpreg_read name tcpu = T8030_CPREG_VAR_NAME tcpu name"

text \<open>Lines 59--64: the generated write function stores into the field.\<close>

definition T8030_cpreg_write :: "cpreg \<Rightarrow> T8030CPU \<Rightarrow> uint64_t \<Rightarrow> T8030CPU" where
  "T8030_cpreg_write name tcpu v =
     tcpu\<lparr>T8030_CPREG_VAR_NAME := (T8030_CPREG_VAR_NAME tcpu)(name := v)\<rparr>"

text \<open>
  Lines 66--73: \<^verbatim>\<open>T8030_CPREG_DEF\<close> builds one entry of the register table.  The
  entry carries the register's name, its system-register encoding, its access rights and
  the generated pair of functions for that name.  The fields \<^verbatim>\<open>cp\<close>, \<^verbatim>\<open>type\<close>
  and \<^verbatim>\<open>state\<close> are the same constants in every entry and are left out.
\<close>

datatype cp_access = PL1_RW

record ARMCPRegInfo =
  ri_name :: cpreg
  opc0 :: nat
  crn :: nat
  crm :: nat
  opc1 :: nat
  opc2 :: nat
  access :: cp_access
  readfn :: "T8030CPU \<Rightarrow> uint64_t"
  writefn :: "T8030CPU \<Rightarrow> uint64_t \<Rightarrow> T8030CPU"

definition T8030_CPREG_DEF ::
  "cpreg \<Rightarrow> nat \<Rightarrow> nat \<Rightarrow> nat \<Rightarrow> nat \<Rightarrow> nat \<Rightarrow> cp_access \<Rightarrow> ARMCPRegInfo" where
  "T8030_CPREG_DEF p_name p_op0 p_op1 p_crn p_crm p_op2 p_access =
     \<lparr>ri_name = p_name, opc0 = p_op0, crn = p_crn, crm = p_crm, opc1 = p_op1, opc2 = p_op2,
      access = p_access, readfn = T8030_cpreg_read p_name, writefn = T8030_cpreg_write p_name\<rparr>"

text \<open>
  Lines 119--161: the table that \<open>T8030_add_cpregs\<close> registers with the CPU, and so the
  registers that system-register instructions reach through the generated functions.  It
  has 38 entries: \<^verbatim>\<open>L2ACTLR_EL1\<close> has a generated pair (line 86) but no entry, as the
  comment at lines 115--116 says.
\<close>

definition T8030_cp_reginfo_tcg :: "ARMCPRegInfo list" where
  "T8030_cp_reginfo_tcg =
     [T8030_CPREG_DEF ARM64_REG_HID11 3 0 15 13 0 PL1_RW,
      T8030_CPREG_DEF ARM64_REG_HID3 3 0 15 3 0 PL1_RW,
      T8030_CPREG_DEF ARM64_REG_HID5 3 0 15 5 0 PL1_RW,
      T8030_CPREG_DEF ARM64_REG_HID4 3 0 15 4 0 PL1_RW,
      T8030_CPREG_DEF ARM64_REG_EHID4 3 0 15 4 1 PL1_RW,
      T8030_CPREG_DEF ARM64_REG_HID8 3 0 15 8 0 PL1_RW,
      T8030_CPREG_DEF ARM64_REG_HID7 3 0 15 7 0 PL1_RW,
      T8030_CPREG_DEF ARM64_REG_LSU_ERR_STS 3 3 15 0 0 PL1_RW,
      T8030_CPREG_DEF PMC0 3 2 15 0 0 PL1_RW,
      T8030_CPREG_DEF PMC1 3 2 15 1 0 PL1_RW,
      T8030_CPREG_DEF PMCR1 3 1 15 1 0 PL1_RW,
      T8030_CPREG_DEF PMSR 3 1 15 13 0 PL1_RW,
      T8030_CPREG_DEF ARM64_REG_APCTL_EL1 3 4 15 0 4 PL1_RW,
      T8030_CPREG_DEF ARM64_REG_KERNELKEYLO_EL1 3 4 15 1 0 PL1_RW,
      T8030_CPREG_DEF ARM64_REG_KERNELKEYHI_EL1 3 4 15 1 1 PL1_RW,
      T8030_CPREG_DEF S3_4_c15_c0_5 3 4 15 0 5 PL1_RW,
      T8030_CPREG_DEF S3_4_c15_c1_3 3 4 15 1 3 PL1_RW,
      T8030_CPREG_DEF S3_4_c15_c1_4 3 4 15 1 4 PL1_RW,
      T8030_CPREG_DEF ARM64_REG_IPI_SR 3 5 15 1 1 PL1_RW,
      T8030_CPREG_DEF ARM64_REG_CYC_OVRD 3 5 15 5 0 PL1_RW,
      T8030_CPREG_DEF ARM64_REG_ACC_CFG 3 5 15 4 0 PL1_RW,
      T8030_CPREG_DEF ARM64_REG_VMSA_LOCK_EL1 3 4 15 1 2 PL1_RW,
      T8030_CPREG_DEF S3_6_c15_c1_0 3 6 15 1 0 PL1_RW,
      T8030_CPREG_DEF S3_6_c15_c1_1 3 6 15 1 1 PL1_RW,
      T8030_CPREG_DEF S3_6_c15_c1_2 3 6 15 1 2 PL1_RW,
      T8030_CPREG_DEF S3_6_c15_c1_5 3 6 15 1 5 PL1_RW,
      T8030_CPREG_DEF S3_6_c15_c1_6 3 6 15 1 6 PL1_RW,
      T8030_CPREG_DEF S3_6_c15_c1_7 3 6 15 1 7 PL1_RW,
      T8030_CPREG_DEF S3_6_c15_c3_0 3 6 15 3 0 PL1_RW,
      T8030_CPREG_DEF S3_6_c15_c3_1 3 6 15 3 1 PL1_RW,
      T8030_CPREG_DEF S3_6_c15_c8_0 3 6 15 8 0 PL1_RW,
      T8030_CPREG_DEF S3_6_c15_c8_1 3 6 15 8 1 PL1_RW,
      T8030_CPREG_DEF S3_6_c15_c8_2 3 6 15 8 2 PL1_RW,
      T8030_CPREG_DEF S3_6_c15_c8_3 3 6 15 8 3 PL1_RW,
      T8030_CPREG_DEF S3_6_c15_c9_1 3 6 15 9 1 PL1_RW,
      T8030_CPREG_DEF UPMPCM 3 7 15 5 4 PL1_RW,
      T8030_CPREG_DEF UPMCR0 3 7 15 0 4 PL1_RW,
      T8030_CPREG_DEF UPMSR 3 7 15 6 4 PL1_RW]"

text \<open>
  Lines 169--188.  Fourteen fields are assigned, in this order; the call of
  \<^verbatim>\<open>define_arm_cp_regs_with_opaque\<close> registers the table with the CPU and does not
  touch the fields.  No other field of the bank is assigned.
\<close>

definition T8030_add_cpregs :: "T8030CPU \<Rightarrow> T8030CPU" where
  "T8030_add_cpregs tcpu =
     tcpu\<lparr>T8030_CPREG_VAR_NAME := (T8030_CPREG_VAR_NAME tcpu)
       (ARM64_REG_HID11 := 0,
        ARM64_REG_HID3 := 0,
        ARM64_REG_HID5 := 0,
        ARM64_REG_HID8 := 0,
        ARM64_REG_HID7 := 0,
        ARM64_REG_LSU_ERR_STS := 0,
        PMC0 := 0,
        PMC1 := 0,
        PMCR1 := 0,
        PMSR := 0,
        L2ACTLR_EL1 := 0,
        ARM64_REG_APCTL_EL1 := 2,
        ARM64_REG_KERNELKEYLO_EL1 := 0,
        ARM64_REG_KERNELKEYHI_EL1 := 0)\<rparr>"

text \<open>The registers that \<open>T8030_add_cpregs\<close> assigns, as a predicate.\<close>

fun assigned_by_add_cpregs :: "cpreg \<Rightarrow> bool" where
  "assigned_by_add_cpregs ARM64_REG_HID11 = True"
| "assigned_by_add_cpregs ARM64_REG_HID3 = True"
| "assigned_by_add_cpregs ARM64_REG_HID5 = True"
| "assigned_by_add_cpregs ARM64_REG_HID8 = True"
| "assigned_by_add_cpregs ARM64_REG_HID7 = True"
| "assigned_by_add_cpregs ARM64_REG_LSU_ERR_STS = True"
| "assigned_by_add_cpregs PMC0 = True"
| "assigned_by_add_cpregs PMC1 = True"
| "assigned_by_add_cpregs PMCR1 = True"
| "assigned_by_add_cpregs PMSR = True"
| "assigned_by_add_cpregs L2ACTLR_EL1 = True"
| "assigned_by_add_cpregs ARM64_REG_APCTL_EL1 = True"
| "assigned_by_add_cpregs ARM64_REG_KERNELKEYLO_EL1 = True"
| "assigned_by_add_cpregs ARM64_REG_KERNELKEYHI_EL1 = True"
| "assigned_by_add_cpregs _ = False"

text \<open>
  Lines 365--378: the handlers of the core's \<^verbatim>\<open>cpu-impl-reg\<close> MMIO window.  Both
  print a line to stderr (not modelled); the write handler stores nothing and the read
  handler returns the constant 0, whatever the address and the access size.
\<close>

definition cpu_impl_reg_write :: "T8030CPU \<Rightarrow> hwaddr \<Rightarrow> uint64_t \<Rightarrow> nat \<Rightarrow> T8030CPU" where
  "cpu_impl_reg_write opaque addr data sz = opaque"

definition cpu_impl_reg_read :: "T8030CPU \<Rightarrow> hwaddr \<Rightarrow> nat \<Rightarrow> uint64_t" where
  "cpu_impl_reg_read opaque addr sz = 0"

text \<open>
  Lines 420--459 of \<^verbatim>\<open>T8030_cpu_setup\<close>, restricted to what it does to
  \<^verbatim>\<open>tms->cpus\<close>: for \<open>i\<close> from 0 below \<^verbatim>\<open>MAX_CPU\<close>, stopping at the first
  \<open>i \<ge> smp.cpus\<close>, core \<open>i\<close> gets its id and its register bank is set up.
  \<^verbatim>\<open>MAX_CPU\<close> is declared in a header outside this file and is a parameter; the
  array \<^verbatim>\<open>tms->cpus\<close> has \<^verbatim>\<open>MAX_CPU\<close> elements.
\<close>

function T8030_cpu_setup_loop :: "nat \<Rightarrow> nat \<Rightarrow> nat \<Rightarrow> T8030CPU list \<Rightarrow> T8030CPU list" where
  "T8030_cpu_setup_loop MAX_CPU smp_cpus i cpus =
     (if i < MAX_CPU then
        (if i \<ge> smp_cpus then cpus
         else T8030_cpu_setup_loop MAX_CPU smp_cpus (i + 1)
                (cpus[i := T8030_add_cpregs ((cpus ! i)\<lparr>cpu_id := i\<rparr>)]))
      else cpus)"
  by pat_completeness auto
termination
  by (relation "measure (\<lambda>(MAX_CPU, smp_cpus, i, cpus). MAX_CPU - i)") auto

definition T8030_cpu_setup :: "nat \<Rightarrow> nat \<Rightarrow> T8030CPU list \<Rightarrow> T8030CPU list" where
  "T8030_cpu_setup MAX_CPU smp_cpus cpus = T8030_cpu_setup_loop MAX_CPU smp_cpus 0 cpus"

text \<open>
  The array \<^verbatim>\<open>tms->cpus\<close> as \<open>T8030_cpu_setup\<close> finds it.  It lies in the machine
  object, which is allocated outside this file and zero-filled on allocation; nothing
  before line 456, the only call of \<open>T8030_add_cpregs\<close>, writes to a register field.  So
  every core starts with id 0 and with every register 0.
\<close>

definition zeroed_core :: "nat \<Rightarrow> T8030CPU" where
  "zeroed_core i = \<lparr>cpu_id = i, T8030_CPREG_VAR_NAME = (\<lambda>name. 0)\<rparr>"

definition zero_filled_cpus :: "nat \<Rightarrow> T8030CPU list" where
  "zero_filled_cpus MAX_CPU = replicate MAX_CPU (zeroed_core 0)"

subsection \<open>Address translation and alignment (declared outside this file)\<close>

text \<open>
  \<^verbatim>\<open>g_virt_base\<close> and \<^verbatim>\<open>g_phys_base\<close> are the two globals that
  \<^verbatim>\<open>T8030_memory_setup\<close> sets at lines 275--276.
\<close>

record xnu_globals =
  g_virt_base :: hwaddr
  g_phys_base :: hwaddr

text \<open>
  Modelled from the spec: the macro \<^verbatim>\<open>align_64k_high\<close> is used by this file and
  declared in a header outside it.  The spec says that every size is rounded up to the
  alignment, which is 64 KiB throughout: the next multiple of \<open>0x10000\<close> at or above
  the argument, computed in 64 bits.
\<close>

definition align_64k_high :: "hwaddr \<Rightarrow> hwaddr" where
  "align_64k_high addr = (addr + 0xffff) AND NOT 0xffff"

text \<open>
  Modelled from the spec: \<^verbatim>\<open>vtop_static\<close> is called by this file and defined
  outside it.  The spec says that a kernel virtual address is translated to its physical
  counterpart using the kernel's load slide, which is the difference of the two globals
  above.
\<close>

definition vtop_static :: "xnu_globals \<Rightarrow> hwaddr \<Rightarrow> hwaddr" where
  "vtop_static g va = va - g_virt_base g + g_phys_base g"

text \<open>
  Modelled from the spec: \<^verbatim>\<open>ptov_static\<close>, the translation in the other direction
  with the same slide.
\<close>

definition ptov_static :: "xnu_globals \<Rightarrow> hwaddr \<Rightarrow> hwaddr" where
  "ptov_static g pa = pa - g_phys_base g + g_virt_base g"

subsection \<open>The kernel patch engine (lines 163--167, 219--238)\<close>

text \<open>Guest memory as seen through an address space: one byte per physical address.\<close>

type_synonym AddressSpace = "hwaddr \<Rightarrow> uint8_t"

text \<open>
  Modelled from the spec: \<^verbatim>\<open>address_space_rw\<close> is the guest address-space writer,
  defined outside this file.  With \<open>is_write\<close> set it overwrites exactly the bytes of
  the buffer, at consecutive addresses from \<open>addr\<close>; a read leaves guest memory as it
  is.  Its result code is ignored by every call in this file.
\<close>

fun address_space_rw :: "AddressSpace \<Rightarrow> hwaddr \<Rightarrow> uint8_t list \<Rightarrow> bool \<Rightarrow> AddressSpace" where
  "address_space_rw as addr [] is_write = as"
| "address_space_rw as addr (b # buf) is_write =
     (if is_write then address_space_rw (as(addr := b)) (addr + 1) buf is_write else as)"

text \<open>
  The buffer \<^verbatim>\<open>(uint8_t *)&g_ret_inst\<close> of length \<^verbatim>\<open>sizeof(g_ret_inst)\<close>: the four
  bytes of the 32-bit word as they lie in host memory, least significant byte first (a
  little-endian host).
\<close>

definition bytes_of_uint32 :: "uint32_t \<Rightarrow> uint8_t list" where
  "bytes_of_uint32 w =
     [ucast w, ucast (drop_bit 8 w), ucast (drop_bit 16 w), ucast (drop_bit 24 w)]"

definition g_nop_inst :: uint32_t where
  "g_nop_inst = NOP_INST"

definition g_ret_inst :: uint32_t where
  "g_ret_inst = RET_INST"

definition T8030_patch_kernel :: "xnu_globals \<Rightarrow> AddressSpace \<Rightarrow> AddressSpace" where
  "T8030_patch_kernel g nsas =
     (let nsas = address_space_rw nsas (vtop_static g 0xFFFFFFF007B4A53C)
                   (bytes_of_uint32 g_ret_inst) True;
          nsas = address_space_rw nsas (vtop_static g 0xFFFFFFF007B4AECC)
                   (bytes_of_uint32 g_ret_inst) True;
          nsas = address_space_rw nsas (vtop_static g 0xFFFFFFF00811CE98)
                   (bytes_of_uint32 g_nop_inst) True;
          nsas = address_space_rw nsas (vtop_static g 0xFFFFFFF007B5A5A8)
                   (bytes_of_uint32 g_nop_inst) True
      in nsas)"

text \<open>
  The single-byte stores that one writing call of \<open>address_space_rw\<close> performs, and
  those of the four calls of the patch, in the order in which they reach memory; used to
  characterise the patched memory.
\<close>

fun rw_writes :: "hwaddr \<Rightarrow> uint8_t list \<Rightarrow> (hwaddr \<times> uint8_t) list" where
  "rw_writes addr [] = []"
| "rw_writes addr (b # buf) = (addr, b) # rw_writes (addr + 1) buf"

definition patch_writes :: "xnu_globals \<Rightarrow> (hwaddr \<times> uint8_t) list" where
  "patch_writes g =
     rw_writes (vtop_static g 0xFFFFFFF007B4A53C) (bytes_of_uint32 g_ret_inst) @
     rw_writes (vtop_static g 0xFFFFFFF007B4AECC) (bytes_of_uint32 g_ret_inst) @
     rw_writes (vtop_static g 0xFFFFFFF00811CE98) (bytes_of_uint32 g_nop_inst) @
     rw_writes (vtop_static g 0xFFFFFFF007B5A5A8) (bytes_of_uint32 g_nop_inst)"

fun apply_writes :: "(hwaddr \<times> uint8_t) list \<Rightarrow> AddressSpace \<Rightarrow> AddressSpace" where
  "apply_writes [] as = as"
| "apply_writes ((a, b) # ws) as = apply_writes ws (as(a := b))"

subsection \<open>The boot-image layout build (lines 240--363)\<close>

text \<open>
  What one run of \<^verbatim>\<open>T8030_memory_setup\<close> receives from outside: the machine's
  configuration and the results of the loaders it calls.  The sizes of the two C structures
  and the offset of the frame buffer in \<^verbatim>\<open>AllocatedData\<close> come from headers outside
  this file and are parameters.
\<close>

record T8030_inputs =
  virt_base :: hwaddr \<comment> \<open>from \<^verbatim>\<open>macho_file_highest_lowest_base\<close>\<close>
  kernel_low :: hwaddr \<comment> \<open>from \<^verbatim>\<open>macho_file_highest_lowest_base\<close>\<close>
  kernel_high :: hwaddr \<comment> \<open>from \<^verbatim>\<open>macho_file_highest_lowest_base\<close>\<close>
  trustcache_file_size :: hwaddr \<comment> \<open>stored by \<^verbatim>\<open>macho_load_raw_file\<close>\<close>
  phys_pc :: hwaddr \<comment> \<open>stored by \<^verbatim>\<open>arm_load_macho\<close>\<close>
  ramdisk_filename :: string \<comment> \<open>\<^verbatim>\<open>tms->ramdisk_filename\<close>\<close>
  ramdisk_file_size :: uint64_t \<comment> \<open>stored by \<^verbatim>\<open>macho_map_raw_file\<close>\<close>
  use_ramfb :: bool \<comment> \<open>\<^verbatim>\<open>tms->use_ramfb\<close>\<close>
  ram_size :: uint64_t \<comment> \<open>\<^verbatim>\<open>machine->ram_size\<close>\<close>
  dtb_encoded_size :: uint64_t \<comment> \<open>stored by \<^verbatim>\<open>macho_load_dtb\<close>\<close>
  kern_args :: string \<comment> \<open>\<^verbatim>\<open>tms->kern_args\<close>\<close>
  sizeof_xnu_arm64_boot_args :: uint64_t
  sizeof_AllocatedData :: uint64_t
  offsetof_ramfb :: uint64_t

text \<open>
  The video descriptor \<^verbatim>\<open>v_bootargs\<close>: zero-initialised at line 257, and filled by
  \<^verbatim>\<open>xnu_get_video_bootargs\<close> (outside this file) from the frame buffer's address.
\<close>

datatype video_boot_args = Video_zeroed | Video_for hwaddr

text \<open>
  The local variables of \<^verbatim>\<open>T8030_memory_setup\<close> and the fields of the machine state
  that it assigns.  \<open>kbootargs_pa\<close> stands for the local and for
  \<^verbatim>\<open>tms->kbootargs_pa\<close>, which line 327 makes equal; \<open>ramdisk_file_dev_pa\<close> and
  \<open>ramdisk_file_dev_size\<close> are \<^verbatim>\<open>tms->ramdisk_file_dev.pa\<close> and \<^verbatim>\<open>.size\<close>.
\<close>

record T8030_memory_setup_state =
  globals :: xnu_globals
  phys_ptr :: hwaddr
  used_ram_for_blobs :: uint64_t
  trustcache_pa :: hwaddr
  trustcache_size :: hwaddr
  kpc_pa :: hwaddr
  dtb_pa :: hwaddr
  dtb_va :: hwaddr
  ramdisk_file_dev_pa :: hwaddr
  ramdisk_file_dev_size :: uint64_t
  ramdisk_size :: hwaddr
  kbootargs_pa :: hwaddr
  extra_data_pa :: hwaddr
  allocated_ram_pa :: hwaddr
  ramfb_pa :: hwaddr
  v_bootargs :: video_boot_args
  top_of_kernel_data_pa :: hwaddr
  remaining_mem_size :: hwaddr
  mem_size :: hwaddr
  dram_base :: hwaddr
  dram_size :: hwaddr

text \<open>
  The function body is cut into its consecutive statements groups, each a function on the
  state.  Lines 242--277: the initialisers and the two globals.  A C local without an
  initialiser starts here at 0; each of them is assigned before it is read.
\<close>

definition ms_begin :: "T8030_inputs \<Rightarrow> T8030_memory_setup_state" where
  "ms_begin c =
     \<lparr>globals = \<lparr>g_virt_base = virt_base c, g_phys_base = T8030_PHYS_BASE\<rparr>,
      phys_ptr = T8030_PHYS_BASE,
      used_ram_for_blobs = 0,
      trustcache_pa = 0, trustcache_size = 0, kpc_pa = 0, dtb_pa = 0, dtb_va = 0,
      ramdisk_file_dev_pa = 0, ramdisk_file_dev_size = 0, ramdisk_size = 0,
      kbootargs_pa = 0, extra_data_pa = 0, allocated_ram_pa = 0,
      ramfb_pa = 0, v_bootargs = Video_zeroed,
      top_of_kernel_data_pa = 0, remaining_mem_size = 0, mem_size = 0,
      dram_base = 0, dram_size = 0\<rparr>"

text \<open>Lines 282--284.\<close>

definition ms_trustcache_reserve :: "T8030_memory_setup_state \<Rightarrow> T8030_memory_setup_state" where
  "ms_trustcache_reserve s =
     (let s = s\<lparr>phys_ptr := phys_ptr s + align_64k_high 0x2000000\<rparr>;
          s = s\<lparr>trustcache_pa := phys_ptr s\<rparr>;
          s = s\<lparr>trustcache_size := 0\<rparr>
      in s)"

text \<open>Lines 285--289: the loader stores the file's size, and the cursor moves past it.\<close>

definition ms_trustcache_load :: "T8030_inputs \<Rightarrow> T8030_memory_setup_state \<Rightarrow> T8030_memory_setup_state" where
  "ms_trustcache_load c s =
     (let s = s\<lparr>trustcache_size := trustcache_file_size c\<rparr>;
          s = s\<lparr>phys_ptr := phys_ptr s + align_64k_high (trustcache_size s)\<rparr>
      in s)"

text \<open>
  Lines 292--300.  The kernel is loaded and patched (the patch acts on guest memory, see
  \<open>T8030_patch_kernel\<close>), and the cursor is set to the aligned physical end of the
  kernel: an assignment, not an increment.
\<close>

definition ms_kernel :: "T8030_inputs \<Rightarrow> T8030_memory_setup_state \<Rightarrow> T8030_memory_setup_state" where
  "ms_kernel c s =
     (let s = s\<lparr>kpc_pa := phys_pc c\<rparr>;
          s = s\<lparr>used_ram_for_blobs :=
                 used_ram_for_blobs s + (align_64k_high (kernel_high c) - kernel_low c)\<rparr>;
          s = s\<lparr>phys_ptr := align_64k_high (vtop_static (globals s) (kernel_high c))\<rparr>
      in s)"

text \<open>Lines 303--307.\<close>

definition ms_devicetree :: "T8030_memory_setup_state \<Rightarrow> T8030_memory_setup_state" where
  "ms_devicetree s =
     (let s = s\<lparr>dtb_pa := phys_ptr s\<rparr>;
          s = s\<lparr>dtb_va := ptov_static (globals s) (phys_ptr s)\<rparr>;
          s = s\<lparr>phys_ptr := phys_ptr s + align_64k_high T8030_MAX_DEVICETREE_SIZE\<rparr>;
          s = s\<lparr>used_ram_for_blobs :=
                 used_ram_for_blobs s + align_64k_high T8030_MAX_DEVICETREE_SIZE\<rparr>
      in s)"

text \<open>
  Lines 309--322.  The test \<^verbatim>\<open>0 != tms->ramdisk_filename[0]\<close> is that the file name
  is not the empty string.
\<close>

definition ms_ramdisk :: "T8030_inputs \<Rightarrow> T8030_memory_setup_state \<Rightarrow> T8030_memory_setup_state" where
  "ms_ramdisk c s =
     (let s = s\<lparr>ramdisk_file_dev_pa := 0\<rparr>;
          s = s\<lparr>ramdisk_size := 0\<rparr>
      in if ramdisk_filename c \<noteq> [] then
           (let s = s\<lparr>ramdisk_file_dev_pa := phys_ptr s\<rparr>;
                s = s\<lparr>ramdisk_file_dev_size := ramdisk_file_size c\<rparr>;
                s = s\<lparr>ramdisk_file_dev_size := align_64k_high (ramdisk_file_dev_size s)\<rparr>;
                s = s\<lparr>ramdisk_size := ramdisk_file_dev_size s\<rparr>;
                s = s\<lparr>phys_ptr := phys_ptr s + ramdisk_file_dev_size s\<rparr>
            in s)
         else s)"

text \<open>Lines 325--330.\<close>

definition ms_bootargs :: "T8030_inputs \<Rightarrow> T8030_memory_setup_state \<Rightarrow> T8030_memory_setup_state" where
  "ms_bootargs c s =
     (let s = s\<lparr>used_ram_for_blobs :=
                 used_ram_for_blobs s + align_64k_high (sizeof_xnu_arm64_boot_args c)\<rparr>;
          s = s\<lparr>kbootargs_pa := phys_ptr s\<rparr>;
          s = s\<lparr>phys_ptr := phys_ptr s + align_64k_high (sizeof_xnu_arm64_boot_args c)\<rparr>;
          s = s\<lparr>extra_data_pa := phys_ptr s\<rparr>;
          s = s\<lparr>allocated_ram_pa := phys_ptr s\<rparr>
      in s)"

text \<open>
  Lines 332--337: \<^verbatim>\<open>&((AllocatedData *)tms->extra_data_pa)->ramfb[0]\<close> is the address
  of the member, the base plus the member's offset.
\<close>

definition ms_ramfb :: "T8030_inputs \<Rightarrow> T8030_memory_setup_state \<Rightarrow> T8030_memory_setup_state" where
  "ms_ramfb c s =
     (if use_ramfb c then
        (let s = s\<lparr>ramfb_pa := extra_data_pa s + offsetof_ramfb c\<rparr>;
             s = s\<lparr>v_bootargs := Video_for (ramfb_pa s)\<rparr>
         in s)
      else s)"

text \<open>Lines 339--344.\<close>

definition ms_extra_data :: "T8030_inputs \<Rightarrow> T8030_memory_setup_state \<Rightarrow> T8030_memory_setup_state" where
  "ms_extra_data c s =
     (let s = s\<lparr>phys_ptr := phys_ptr s + align_64k_high (sizeof_AllocatedData c)\<rparr>;
          s = s\<lparr>top_of_kernel_data_pa := phys_ptr s\<rparr>;
          s = s\<lparr>remaining_mem_size := ram_size c - used_ram_for_blobs s\<rparr>;
          s = s\<lparr>mem_size := allocated_ram_pa s - T8030_PHYS_BASE + remaining_mem_size s\<rparr>;
          s = s\<lparr>dram_base := T8030_PHYS_BASE\<rparr>;
          s = s\<lparr>dram_size := mem_size s\<rparr>
      in s)"

text \<open>The states after each group of statements, in the order of the source.\<close>

definition ms_states :: "T8030_inputs \<Rightarrow> T8030_memory_setup_state list" where
  "ms_states c =
     (let s0 = ms_begin c;
          s1 = ms_trustcache_reserve s0;
          s2 = ms_trustcache_load c s1;
          s3 = ms_kernel c s2;
          s4 = ms_devicetree s3;
          s5 = ms_ramdisk c s4;
          s6 = ms_bootargs c s5;
          s7 = ms_ramfb c s6;
          s8 = ms_extra_data c s7
      in [s0, s1, s2, s3, s4, s5, s6, s7, s8])"

text \<open>Lines 242--344 as a whole: the state in which line 350 is reached.\<close>

definition T8030_memory_layout :: "T8030_inputs \<Rightarrow> T8030_memory_setup_state" where
  "T8030_memory_layout c =
     ms_extra_data c (ms_ramfb c (ms_bootargs c (ms_ramdisk c (ms_devicetree
       (ms_kernel c (ms_trustcache_load c (ms_trustcache_reserve (ms_begin c))))))))"

text \<open>The values that the cursor \<open>phys_ptr\<close> takes during the run, in order.\<close>

definition phys_ptr_trace :: "T8030_inputs \<Rightarrow> hwaddr list" where
  "phys_ptr_trace c = map phys_ptr (ms_states c)"

text \<open>
  Lines 350--362.  The encoder stores the encoded size, the assertion checks it, and the
  boot arguments are written from the layout and the memory is allocated.  The result is
  the failed assertion, or the final state with the arguments passed to
  \<^verbatim>\<open>macho_setup_bootargs\<close>.
\<close>

datatype error = Assertion_failed

record bootargs_call =
  ba_bootargs_pa :: hwaddr
  ba_virt_base :: hwaddr
  ba_phys_base :: hwaddr
  ba_mem_size :: hwaddr
  ba_top_of_kernel_data_pa :: hwaddr
  ba_dtb_va :: hwaddr
  ba_dtb_size :: uint64_t
  ba_v_bootargs :: video_boot_args
  ba_kern_args :: string

definition T8030_memory_setup :: "T8030_inputs \<Rightarrow> error + (T8030_memory_setup_state \<times> bootargs_call)" where
  "T8030_memory_setup c =
     (let s = T8030_memory_layout c;
          dtb_size = dtb_encoded_size c
      in if dtb_size \<le> T8030_MAX_DEVICETREE_SIZE then
           Inr (s, \<lparr>ba_bootargs_pa = kbootargs_pa s, ba_virt_base = virt_base c,
                    ba_phys_base = T8030_PHYS_BASE, ba_mem_size = mem_size s,
                    ba_top_of_kernel_data_pa = top_of_kernel_data_pa s,
                    ba_dtb_va = dtb_va s, ba_dtb_size = dtb_size,
                    ba_v_bootargs = v_bootargs s, ba_kern_args = kern_args c\<rparr>)
         else Inl Assertion_failed)"

subsection \<open>The placed regions\<close>

text \<open>
  Modelled from the spec: where \<^verbatim>\<open>arm_load_macho\<close> (outside this file) puts the
  kernel.  The spec says that the kernel image is loaded at the fixed physical base using
  the discovered virtual base and low/high span: its lowest virtual address goes to its
  static translation.
\<close>

definition kernel_base_pa :: "T8030_inputs \<Rightarrow> hwaddr" where
  "kernel_base_pa c =
     vtop_static \<lparr>g_virt_base = virt_base c, g_phys_base = T8030_PHYS_BASE\<rparr> (kernel_low c)"

text \<open>
  The regions that the run places, each with its base and the size that the code reserves
  for it.  The trust cache, the device tree, the ramdisk, the boot arguments and the extra
  data take the amount by which the cursor is advanced for them; the kernel takes
  \<open>align_64k_high kernel_high - kernel_low\<close> bytes, the amount that line 296 accounts
  for it.  The ramdisk is listed only when a file name is configured.
\<close>

datatype BootRegion =
  TrustCache | LoadedKernel | DeviceTreeBlob | Ramdisk | BootArgsStruct | ExtraScratchData

record region =
  kind :: BootRegion
  base :: hwaddr
  rsize :: hwaddr

definition boot_regions :: "T8030_inputs \<Rightarrow> region list" where
  "boot_regions c =
     (let s = T8030_memory_layout c in
      [\<lparr>kind = TrustCache, base = trustcache_pa s,
        rsize = align_64k_high (trustcache_size s)\<rparr>,
       \<lparr>kind = LoadedKernel, base = kernel_base_pa c,
        rsize = align_64k_high (kernel_high c) - kernel_low c\<rparr>,
       \<lparr>kind = DeviceTreeBlob, base = dtb_pa s,
        rsize = align_64k_high T8030_MAX_DEVICETREE_SIZE\<rparr>] @
      (if ramdisk_filename c \<noteq> [] then
         [\<lparr>kind = Ramdisk, base = ramdisk_file_dev_pa s, rsize = ramdisk_file_dev_size s\<rparr>]
       else []) @
      [\<lparr>kind = BootArgsStruct, base = kbootargs_pa s,
        rsize = align_64k_high (sizeof_xnu_arm64_boot_args c)\<rparr>,
       \<lparr>kind = ExtraScratchData, base = extra_data_pa s,
        rsize = align_64k_high (sizeof_AllocatedData c)\<rparr>])"

text \<open>
  Two regions are disjoint when one ends at or before the base of the other; the ends are
  taken as natural numbers, so that a region that would run over the top of the 64-bit
  address space is not mistaken for a short one.
\<close>

definition disjoint :: "region \<Rightarrow> region \<Rightarrow> bool" where
  "disjoint A B \<longleftrightarrow>
     unat (base A) + unat (rsize A) \<le> unat (base B) \<or>
     unat (base B) + unat (rsize B) \<le> unat (base A)"

fun disjoint_from_all :: "region \<Rightarrow> region list \<Rightarrow> bool" where
  "disjoint_from_all A [] = True"
| "disjoint_from_all A (B # Bs) = (disjoint A B \<and> disjoint_from_all A Bs)"

fun pairwise_disjoint :: "region list \<Rightarrow> bool" where
  "pairwise_disjoint [] = True"
| "pairwise_disjoint (A # As) = (disjoint_from_all A As \<and> pairwise_disjoint As)"

text \<open>The cursor never goes back: each value of the trace is at most the next one.\<close>

fun nondecreasing :: "hwaddr list \<Rightarrow> bool" where
  "nondecreasing [] = True"
| "nondecreasing [p] = True"
| "nondecreasing (p # q # ps) = (p \<le> q \<and> nondecreasing (q # ps))"

subsection \<open>Quantities in which the properties are stated\<close>

text \<open>
  The aligned physical end of the kernel (the value that line 300 gives the cursor), the
  amount by which lines 311--322 advance the cursor, and the sum of what is reserved from
  the end of the kernel on, as a natural number.
\<close>

definition kernel_end_pa :: "T8030_inputs \<Rightarrow> hwaddr" where
  "kernel_end_pa c =
     align_64k_high
       (vtop_static \<lparr>g_virt_base = virt_base c, g_phys_base = T8030_PHYS_BASE\<rparr> (kernel_high c))"

definition ramdisk_reserved :: "T8030_inputs \<Rightarrow> hwaddr" where
  "ramdisk_reserved c =
     (if ramdisk_filename c \<noteq> [] then align_64k_high (ramdisk_file_size c) else 0)"

definition reserved_after_kernel :: "T8030_inputs \<Rightarrow> nat" where
  "reserved_after_kernel c =
     unat (align_64k_high T8030_MAX_DEVICETREE_SIZE) + unat (ramdisk_reserved c) +
     unat (align_64k_high (sizeof_xnu_arm64_boot_args c)) +
     unat (align_64k_high (sizeof_AllocatedData c))"

subsection \<open>Example runs\<close>

text \<open>
  A kernel linked at \<open>0xFFFFFFF007004000\<close> with a span of 48 MiB and the virtual base
  \<open>0xFFFFFFF000000000\<close>, so that it is loaded from \<open>0x47004000\<close> on, above the trust
  cache; a trust cache of \<open>0x1000\<close> bytes, no ramdisk, 1 GiB of RAM.
\<close>

definition example_inputs :: T8030_inputs where
  "example_inputs =
     \<lparr>virt_base = 0xFFFFFFF000000000, kernel_low = 0xFFFFFFF007004000,
      kernel_high = 0xFFFFFFF00A004000, trustcache_file_size = 0x1000,
      phys_pc = 0x47A04000, ramdisk_filename = [], ramdisk_file_size = 0,
      use_ramfb = False, ram_size = 0x40000000, dtb_encoded_size = 0x20000,
      kern_args = ''debug=0x8'', sizeof_xnu_arm64_boot_args = 0x2a0,
      sizeof_AllocatedData = 0x1000000, offsetof_ramfb = 0\<rparr>"

text \<open>The same with a ramdisk of \<open>0x123456\<close> bytes.\<close>

definition example_inputs_ramdisk :: T8030_inputs where
  "example_inputs_ramdisk =
     example_inputs\<lparr>ramdisk_filename := ''ramdisk.img'', ramdisk_file_size := 0x123456\<rparr>"

text \<open>
  A virtual base just below the kernel, so that the kernel is loaded from \<open>0x40004000\<close>
  on, and a span of 16 MiB: the kernel ends below the trust cache.
\<close>

definition example_inputs_low_kernel :: T8030_inputs where
  "example_inputs_low_kernel =
     example_inputs\<lparr>virt_base := 0xFFFFFFF007000000, kernel_high := 0xFFFFFFF008004000\<rparr>"

text \<open>
  The same virtual base and a kernel that ends at \<open>0x41FF0000\<close>, 64 KiB below the
  trust cache.
\<close>

definition example_inputs_overlap :: T8030_inputs where
  "example_inputs_overlap =
     example_inputs\<lparr>virt_base := 0xFFFFFFF007000000, kernel_high := 0xFFFFFFF008FF0000\<rparr>"

section \<open>Properties\<close>

declare T8030_cpu_setup_loop.simps [simp del]

lemmas ms_defs =
  ms_begin_def ms_trustcache_reserve_def ms_trustcache_load_def ms_kernel_def
  ms_devicetree_def ms_ramdisk_def ms_bootargs_def ms_ramfb_def ms_extra_data_def

subsection \<open>The register bank\<close>

lemma reginfo_entry_functions:
  assumes "ri \<in> set T8030_cp_reginfo_tcg"
  shows "readfn ri = T8030_cpreg_read (ri_name ri) \<and> writefn ri = T8030_cpreg_write (ri_name ri)"
  using assms by (auto simp add: T8030_cp_reginfo_tcg_def T8030_CPREG_DEF_def)

lemma reginfo_names:
  "length T8030_cp_reginfo_tcg = 38 \<and> distinct (map ri_name T8030_cp_reginfo_tcg) \<and>
   L2ACTLR_EL1 \<notin> set (map ri_name T8030_cp_reginfo_tcg)"
  by (simp add: T8030_cp_reginfo_tcg_def T8030_CPREG_DEF_def)

text \<open>
  Claim C1, as amended.  For every core, every entry of the register table
  \<open>T8030_cp_reginfo_tcg\<close> (the 38 registers that the system-register path reaches;
  \<^verbatim>\<open>L2ACTLR_EL1\<close> is not among them) and every 64-bit value: after the value is written
  through the entry's write function, the entry's read function returns exactly that
  value, which is held in the register's one storage slot.  The MMIO window of the core
  does not reach the bank: its read handler returns 0 whatever was written, and its write
  handler leaves the core as it is.
\<close>

theorem cpreg_write_read_paths:
  assumes "ri \<in> set T8030_cp_reginfo_tcg"
  shows "readfn ri (writefn ri tcpu v) = v \<and>
         T8030_CPREG_VAR_NAME (writefn ri tcpu v) (ri_name ri) = v \<and>
         cpu_impl_reg_read (writefn ri tcpu v) addr sz = 0 \<and>
         cpu_impl_reg_write tcpu addr data sz = tcpu"
  using reginfo_entry_functions [OF assms]
  by (simp add: T8030_cpreg_read_def T8030_cpreg_write_def cpu_impl_reg_read_def
      cpu_impl_reg_write_def)

text \<open>
  The theorem at the first entry of the table: \<open>0x1234\<close> written to
  \<^verbatim>\<open>ARM64_REG_HID11\<close> of a core is read back through the entry, and the MMIO read
  returns 0.
\<close>

theorem cpreg_write_read_paths_witness:
  "T8030_CPREG_DEF ARM64_REG_HID11 3 0 15 13 0 PL1_RW \<in> set T8030_cp_reginfo_tcg \<and>
   readfn (T8030_CPREG_DEF ARM64_REG_HID11 3 0 15 13 0 PL1_RW)
     (writefn (T8030_CPREG_DEF ARM64_REG_HID11 3 0 15 13 0 PL1_RW) (zeroed_core 0) 0x1234)
     = 0x1234 \<and>
   cpu_impl_reg_read
     (writefn (T8030_CPREG_DEF ARM64_REG_HID11 3 0 15 13 0 PL1_RW) (zeroed_core 0) 0x1234)
     0 8 = 0"
  using cpreg_write_read_paths
    [of "T8030_CPREG_DEF ARM64_REG_HID11 3 0 15 13 0 PL1_RW" "zeroed_core 0" "0x1234" 0 8]
  by (simp add: T8030_cp_reginfo_tcg_def)

text \<open>
  Claim C1 as stated fails: after 1 is written to \<^verbatim>\<open>ARM64_REG_HID11\<close> of a core, an
  8-byte MMIO read at offset 0 of that core's window does not return 1.
\<close>

theorem mmio_read_after_sysreg_write_counterexample:
  "cpu_impl_reg_read (T8030_cpreg_write ARM64_REG_HID11 (zeroed_core 0) 1) 0 8 \<noteq> 1"
  by (simp add: cpu_impl_reg_read_def)

lemma add_cpregs_value:
  "T8030_CPREG_VAR_NAME (T8030_add_cpregs tcpu) r =
     (if r = ARM64_REG_APCTL_EL1 then 2
      else if assigned_by_add_cpregs r then 0
      else T8030_CPREG_VAR_NAME tcpu r)"
  by (cases r) (simp_all add: T8030_add_cpregs_def)

lemma cpu_setup_loop_length:
  "length (T8030_cpu_setup_loop M n i cpus) = length cpus"
  by (induction M n i cpus rule: T8030_cpu_setup_loop.induct)
     (subst T8030_cpu_setup_loop.simps, simp)

lemma cpu_setup_loop_nth:
  "j < length cpus \<Longrightarrow>
   T8030_cpu_setup_loop M n i cpus ! j =
     (if i \<le> j \<and> j < M \<and> j < n then T8030_add_cpregs ((cpus ! j)\<lparr>cpu_id := j\<rparr>)
      else cpus ! j)"
proof (induction M n i cpus rule: T8030_cpu_setup_loop.induct)
  case (1 M n i cpus)
  show ?case
  proof (cases "i < M \<and> i < n")
    case True
    let ?cpus' = "cpus[i := T8030_add_cpregs ((cpus ! i)\<lparr>cpu_id := i\<rparr>)]"
    have len: "j < length ?cpus'" using "1.prems" by simp
    have step: "T8030_cpu_setup_loop M n i cpus = T8030_cpu_setup_loop M n (i + 1) ?cpus'"
      using True by (subst T8030_cpu_setup_loop.simps) simp
    have ih: "T8030_cpu_setup_loop M n (i + 1) ?cpus' ! j =
        (if i + 1 \<le> j \<and> j < M \<and> j < n then T8030_add_cpregs ((?cpus' ! j)\<lparr>cpu_id := j\<rparr>)
         else ?cpus' ! j)"
      using True len by (intro "1.IH") auto
    show ?thesis
    proof (cases "j = i")
      case True
      with \<open>i < M \<and> i < n\<close> "1.prems" show ?thesis
        unfolding step ih by simp
    next
      case False
      with "1.prems" show ?thesis
        unfolding step ih by auto
    qed
  next
    case False
    then have stop: "T8030_cpu_setup_loop M n i cpus = cpus"
      by (subst T8030_cpu_setup_loop.simps) auto
    have "\<not> (i \<le> j \<and> j < M \<and> j < n)" using False by auto
    then show ?thesis unfolding stop by (simp only: if_False)
  qed
qed

lemma cpu_setup_register_values_from:
  assumes "i < smp_cpus" and "i < MAX_CPU" and "length cpus = MAX_CPU"
  shows "T8030_CPREG_VAR_NAME (T8030_cpu_setup MAX_CPU smp_cpus cpus ! i) r =
           (if r = ARM64_REG_APCTL_EL1 then 2
            else if assigned_by_add_cpregs r then 0
            else T8030_CPREG_VAR_NAME (cpus ! i) r)"
  using assms by (simp add: T8030_cpu_setup_def cpu_setup_loop_nth add_cpregs_value)

text \<open>
  Claim C8.  After \<open>T8030_cpu_setup\<close> has run on the zero-filled array of cores, in
  every core \<open>i\<close> that it sets up (\<open>i\<close> below \<^verbatim>\<open>smp.cpus\<close> and below
  \<^verbatim>\<open>MAX_CPU\<close>) every register of the bank holds 0, except \<^verbatim>\<open>ARM64_REG_APCTL_EL1\<close>,
  which holds the sentinel 2.
\<close>

theorem cpu_setup_register_values:
  assumes "i < smp_cpus" and "i < MAX_CPU"
  shows "T8030_CPREG_VAR_NAME
           (T8030_cpu_setup MAX_CPU smp_cpus (zero_filled_cpus MAX_CPU) ! i) r =
           (if r = ARM64_REG_APCTL_EL1 then 2 else 0)"
  using assms
    cpu_setup_register_values_from [of i smp_cpus MAX_CPU "zero_filled_cpus MAX_CPU" r]
  by (simp add: zero_filled_cpus_def zeroed_core_def)

text \<open>
  The theorem at six cores of which two are started: in core 1 the sentinel is 2, the
  assigned \<^verbatim>\<open>ARM64_REG_HID3\<close> is 0, and \<^verbatim>\<open>ARM64_REG_HID4\<close>, which
  \<open>T8030_add_cpregs\<close> does not assign, is 0 as well.
\<close>

theorem cpu_setup_register_values_witness:
  "T8030_CPREG_VAR_NAME (T8030_cpu_setup 6 2 (zero_filled_cpus 6) ! 1)
     ARM64_REG_APCTL_EL1 = 2 \<and>
   T8030_CPREG_VAR_NAME (T8030_cpu_setup 6 2 (zero_filled_cpus 6) ! 1)
     ARM64_REG_HID3 = 0 \<and>
   T8030_CPREG_VAR_NAME (T8030_cpu_setup 6 2 (zero_filled_cpus 6) ! 1)
     ARM64_REG_HID4 = 0"
  using cpu_setup_register_values [of 1 2 6 ARM64_REG_APCTL_EL1]
    cpu_setup_register_values [of 1 2 6 ARM64_REG_HID3]
    cpu_setup_register_values [of 1 2 6 ARM64_REG_HID4]
  by simp

subsection \<open>The kernel patch engine\<close>

lemma apply_writes_apply:
  "apply_writes ws as x = (case map_of (rev ws) x of None \<Rightarrow> as x | Some b \<Rightarrow> b)"
  by (induction ws arbitrary: as) (auto simp: map_add_def split: option.splits)

lemma apply_writes_idem: "apply_writes ws (apply_writes ws as) = apply_writes ws as"
  by (rule ext) (simp add: apply_writes_apply split: option.splits)

lemma apply_writes_append:
  "apply_writes (xs @ ys) as = apply_writes ys (apply_writes xs as)"
  by (induction xs arbitrary: as) auto

lemma address_space_rw_as_writes:
  "address_space_rw as addr buf True = apply_writes (rw_writes addr buf) as"
  by (induction buf arbitrary: as addr) auto

lemma patch_kernel_as_writes: "T8030_patch_kernel g nsas = apply_writes (patch_writes g) nsas"
  by (simp add: T8030_patch_kernel_def patch_writes_def Let_def apply_writes_append
      address_space_rw_as_writes)

text \<open>
  Claim C9.  Patching the kernel twice in the same address space, with the same load
  slide, leaves guest memory as patching it once does: every byte that the patch writes is
  a constant stored at a constant translated address.
\<close>

theorem patch_kernel_idempotent:
  "T8030_patch_kernel g (T8030_patch_kernel g nsas) = T8030_patch_kernel g nsas"
  by (simp only: patch_kernel_as_writes apply_writes_idem)

subsection \<open>Word arithmetic\<close>

lemma unat_add_nowrap:
  fixes x y :: "64 word"
  shows "unat x + unat y < 2 ^ 64 \<Longrightarrow> unat (x + y) = unat x + unat y"
  using unat_add_lem [of x y] by simp

lemma take_bit_16_add:
  fixes z d :: "64 word"
  assumes "take_bit 16 d = 0"
  shows "take_bit 16 (z + d) = take_bit 16 z"
proof -
  have d0: "unat d mod 2 ^ 16 = 0"
  proof -
    have "unat (take_bit 16 d) = take_bit 16 (unat d)" by (rule unsigned_take_bit_eq)
    then show ?thesis using assms by (simp add: take_bit_eq_mod)
  qed
  have dv: "(2 :: nat) ^ 16 dvd 2 ^ 64" by (simp add: le_imp_power_dvd)
  have "unat (take_bit 16 (z + d)) = ((unat z + unat d) mod 2 ^ 64) mod 2 ^ 16"
    by (simp add: unsigned_take_bit_eq take_bit_eq_mod unat_word_ariths)
  also have "\<dots> = (unat z + unat d) mod 2 ^ 16"
    using dv by (rule mod_mod_cancel)
  also have "\<dots> = unat z mod 2 ^ 16"
    using d0 by (metis add.right_neutral mod_add_right_eq)
  also have "\<dots> = unat (take_bit 16 z)"
    unfolding unsigned_take_bit_eq by (simp add: take_bit_eq_mod)
  finally show ?thesis by (simp add: word_unat_eq_iff)
qed

lemma take_bit_16_sub:
  fixes a b :: "64 word"
  assumes "take_bit 16 a = 0" "take_bit 16 b = 0"
  shows "take_bit 16 (a - b) = 0"
  using take_bit_16_add [OF assms(2), of "a - b"] assms(1) by simp

lemma and_not_ffff:
  fixes z :: "64 word"
  shows "z AND NOT 0xffff = z - take_bit 16 z"
proof -
  have m: "(0xffff :: 64 word) = mask 16" by (simp add: mask_eq_decr_exp)
  have "z AND NOT (mask 16) = push_bit 16 (drop_bit 16 z)"
    by (rule bit_eqI) (auto simp: bit_simps)
  moreover have "push_bit 16 (drop_bit 16 z) + take_bit 16 z = z"
    by (rule bits_ident)
  ultimately have "z AND NOT (mask 16) = z - take_bit 16 z"
    by (metis add_diff_cancel_right')
  then show ?thesis by (simp add: m)
qed

text \<open>Rounding up to 64 KiB commutes with a shift by a multiple of 64 KiB.\<close>

lemma align_64k_high_shift:
  fixes x d :: "64 word"
  assumes "take_bit 16 d = 0"
  shows "align_64k_high (x + d) = align_64k_high x + d"
proof -
  have e: "x + d + 0xffff = (x + 0xffff) + d" by (simp add: algebra_simps)
  have t: "take_bit 16 (x + d + 0xffff) = take_bit 16 (x + 0xffff)"
    unfolding e by (rule take_bit_16_add [OF assms])
  have "align_64k_high (x + d) = (x + d + 0xffff) - take_bit 16 (x + d + 0xffff)"
    by (simp only: align_64k_high_def and_not_ffff)
  also have "\<dots> = ((x + 0xffff) - take_bit 16 (x + 0xffff)) + d"
    unfolding t by (simp add: algebra_simps)
  also have "\<dots> = align_64k_high x + d"
    by (simp only: align_64k_high_def and_not_ffff)
  finally show ?thesis .
qed

lemma align_64k_high_vtop:
  assumes "virt_base c AND 0xffff = 0"
  shows "align_64k_high
           (vtop_static \<lparr>g_virt_base = virt_base c, g_phys_base = T8030_PHYS_BASE\<rparr> va)
       = vtop_static \<lparr>g_virt_base = virt_base c, g_phys_base = T8030_PHYS_BASE\<rparr>
           (align_64k_high va)"
proof -
  have m: "(0xffff :: 64 word) = mask 16" by (simp add: mask_eq_decr_exp)
  have v: "take_bit 16 (virt_base c) = 0" using assms by (simp add: m take_bit_eq_mask)
  have p: "take_bit 16 T8030_PHYS_BASE = 0" by (simp add: T8030_PHYS_BASE_def)
  have d: "take_bit 16 (T8030_PHYS_BASE - virt_base c) = 0"
    by (rule take_bit_16_sub [OF p v])
  have e: "va - virt_base c + T8030_PHYS_BASE = va + (T8030_PHYS_BASE - virt_base c)"
    for va by (simp add: algebra_simps)
  show ?thesis
    unfolding vtop_static_def xnu_globals.simps e by (rule align_64k_high_shift [OF d])
qed

lemma kernel_end_pa_eq:
  assumes "virt_base c AND 0xffff = 0"
  shows "kernel_end_pa c = kernel_base_pa c + (align_64k_high (kernel_high c) - kernel_low c)"
  unfolding kernel_end_pa_def align_64k_high_vtop [OF assms]
  by (simp add: kernel_base_pa_def vtop_static_def)

subsection \<open>The cursor\<close>

lemma phys_ptr_stages:
  "phys_ptr (ms_begin c) = T8030_PHYS_BASE"
  "phys_ptr (ms_trustcache_reserve s) = phys_ptr s + align_64k_high 0x2000000"
  "phys_ptr (ms_trustcache_load c s) = phys_ptr s + align_64k_high (trustcache_file_size c)"
  "phys_ptr (ms_kernel c s) = align_64k_high (vtop_static (globals s) (kernel_high c))"
  "phys_ptr (ms_devicetree s) = phys_ptr s + align_64k_high T8030_MAX_DEVICETREE_SIZE"
  "phys_ptr (ms_ramdisk c s) = phys_ptr s + ramdisk_reserved c"
  "phys_ptr (ms_bootargs c s) = phys_ptr s + align_64k_high (sizeof_xnu_arm64_boot_args c)"
  "phys_ptr (ms_ramfb c s) = phys_ptr s"
  "phys_ptr (ms_extra_data c s) = phys_ptr s + align_64k_high (sizeof_AllocatedData c)"
  by (simp_all add: ms_defs Let_def ramdisk_reserved_def)

lemma globals_stages:
  "globals (ms_begin c) = \<lparr>g_virt_base = virt_base c, g_phys_base = T8030_PHYS_BASE\<rparr>"
  "globals (ms_trustcache_reserve s) = globals s"
  "globals (ms_trustcache_load c s) = globals s"
  by (simp_all add: ms_defs Let_def)

lemma phys_ptr_trace_values:
  "phys_ptr_trace c =
     [T8030_PHYS_BASE,
      T8030_PHYS_BASE + align_64k_high 0x2000000,
      T8030_PHYS_BASE + align_64k_high 0x2000000 + align_64k_high (trustcache_file_size c),
      kernel_end_pa c,
      kernel_end_pa c + align_64k_high T8030_MAX_DEVICETREE_SIZE,
      kernel_end_pa c + align_64k_high T8030_MAX_DEVICETREE_SIZE + ramdisk_reserved c,
      kernel_end_pa c + align_64k_high T8030_MAX_DEVICETREE_SIZE + ramdisk_reserved c +
        align_64k_high (sizeof_xnu_arm64_boot_args c),
      kernel_end_pa c + align_64k_high T8030_MAX_DEVICETREE_SIZE + ramdisk_reserved c +
        align_64k_high (sizeof_xnu_arm64_boot_args c),
      kernel_end_pa c + align_64k_high T8030_MAX_DEVICETREE_SIZE + ramdisk_reserved c +
        align_64k_high (sizeof_xnu_arm64_boot_args c) + align_64k_high (sizeof_AllocatedData c)]"
  by (simp add: phys_ptr_trace_def ms_states_def Let_def phys_ptr_stages globals_stages
      kernel_end_pa_def)

text \<open>
  Claim C2, as amended.  In a run in which the addition for the trust cache does not wrap
  around \<open>2 ^ 64\<close>, the kernel's aligned physical end is not below the cursor reached
  after the trust cache, and what is reserved from the end of the kernel on fits below
  \<open>2 ^ 64\<close>, the cursor \<open>phys_ptr\<close> never decreases: each step leaves it unchanged
  or advances it.
\<close>

theorem phys_ptr_nondecreasing:
  assumes tcfit: "unat (T8030_PHYS_BASE + align_64k_high 0x2000000) +
                  unat (align_64k_high (trustcache_file_size c)) < 2 ^ 64"
      and tc: "T8030_PHYS_BASE + align_64k_high 0x2000000 +
               align_64k_high (trustcache_file_size c) \<le> kernel_end_pa c"
      and fit: "unat (kernel_end_pa c) + reserved_after_kernel c < 2 ^ 64"
  shows "nondecreasing (phys_ptr_trace c)"
proof -
  define K where "K = kernel_end_pa c"
  define D where "D = align_64k_high T8030_MAX_DEVICETREE_SIZE"
  define R where "R = ramdisk_reserved c"
  define B where "B = align_64k_high (sizeof_xnu_arm64_boot_args c)"
  define E where "E = align_64k_high (sizeof_AllocatedData c)"
  define P1 where "P1 = T8030_PHYS_BASE + align_64k_high 0x2000000"
  define T where "T = align_64k_high (trustcache_file_size c)"
  have fit': "unat K + unat D + unat R + unat B + unat E < 2 ^ 64"
    using fit by (simp add: reserved_after_kernel_def K_def D_def R_def B_def E_def)
  have K64: "unat K < 2 ^ 64" using fit' by simp
  have p01: "T8030_PHYS_BASE \<le> P1"
    by (simp add: P1_def T8030_PHYS_BASE_def align_64k_high_def)
  have u2: "unat (P1 + T) = unat P1 + unat T"
    using tcfit by (intro unat_add_nowrap) (simp add: P1_def T_def)
  have "P1 + T \<le> K" using tc by (simp add: P1_def T_def K_def)
  then have tc': "unat P1 + unat T \<le> unat K" by (simp add: word_le_nat_alt u2)
  have u4: "unat (K + D) = unat K + unat D"
    using fit' by (intro unat_add_nowrap) simp
  have u5: "unat (K + D + R) = unat K + unat D + unat R"
    using fit' u4 by (subst unat_add_nowrap) simp_all
  have u6: "unat (K + D + R + B) = unat K + unat D + unat R + unat B"
    using fit' u5 by (subst unat_add_nowrap) simp_all
  have u8: "unat (K + D + R + B + E) = unat K + unat D + unat R + unat B + unat E"
    using fit' u6 by (subst unat_add_nowrap) simp_all
  have p12: "P1 \<le> P1 + T" by (simp add: word_le_nat_alt u2)
  have p23: "P1 + T \<le> K" using tc' by (simp add: word_le_nat_alt u2)
  have p34: "K \<le> K + D" by (simp add: word_le_nat_alt u4)
  have p45: "K + D \<le> K + D + R" by (simp add: word_le_nat_alt u4 u5)
  have p56: "K + D + R \<le> K + D + R + B" by (simp add: word_le_nat_alt u5 u6)
  have p78: "K + D + R + B \<le> K + D + R + B + E" by (simp add: word_le_nat_alt u6 u8)
  have "phys_ptr_trace c =
      [T8030_PHYS_BASE, P1, P1 + T, K, K + D, K + D + R, K + D + R + B, K + D + R + B,
       K + D + R + B + E]"
    unfolding phys_ptr_trace_values K_def D_def R_def B_def E_def P1_def T_def ..
  then show ?thesis
    using p01 p12 p23 p34 p45 p56 p78 by simp
qed

text \<open>The theorem at the example run with a ramdisk, where the three conditions hold.\<close>

theorem phys_ptr_nondecreasing_witness:
  "nondecreasing (phys_ptr_trace example_inputs_ramdisk)"
  using phys_ptr_nondecreasing [of example_inputs_ramdisk]
  by (simp add: example_inputs_ramdisk_def example_inputs_def kernel_end_pa_def
      reserved_after_kernel_def ramdisk_reserved_def T8030_PHYS_BASE_def
      T8030_MAX_DEVICETREE_SIZE_def align_64k_high_def vtop_static_def)

text \<open>
  Claim C2 as stated fails: with a kernel that ends at \<open>0x41010000\<close> the cursor stands
  at \<open>0x42010000\<close> after the trust cache and is then set back to \<open>0x41010000\<close> by
  line 300.
\<close>

theorem phys_ptr_decreases_counterexample:
  "\<not> nondecreasing (phys_ptr_trace example_inputs_low_kernel) \<and>
   phys_ptr_trace example_inputs_low_kernel ! 2 = 0x42010000 \<and>
   phys_ptr_trace example_inputs_low_kernel ! 3 = 0x41010000"
  by (simp add: phys_ptr_trace_values example_inputs_low_kernel_def example_inputs_def
      kernel_end_pa_def ramdisk_reserved_def T8030_PHYS_BASE_def
      T8030_MAX_DEVICETREE_SIZE_def align_64k_high_def vtop_static_def)

subsection \<open>The regions\<close>

lemma boot_regions_values:
  "boot_regions c =
     [\<lparr>kind = TrustCache, base = T8030_PHYS_BASE + align_64k_high 0x2000000,
       rsize = align_64k_high (trustcache_file_size c)\<rparr>,
      \<lparr>kind = LoadedKernel, base = kernel_base_pa c,
       rsize = align_64k_high (kernel_high c) - kernel_low c\<rparr>,
      \<lparr>kind = DeviceTreeBlob, base = kernel_end_pa c,
       rsize = align_64k_high T8030_MAX_DEVICETREE_SIZE\<rparr>] @
     (if ramdisk_filename c \<noteq> [] then
        [\<lparr>kind = Ramdisk, base = kernel_end_pa c + align_64k_high T8030_MAX_DEVICETREE_SIZE,
          rsize = ramdisk_reserved c\<rparr>]
      else []) @
     [\<lparr>kind = BootArgsStruct,
       base = kernel_end_pa c + align_64k_high T8030_MAX_DEVICETREE_SIZE + ramdisk_reserved c,
       rsize = align_64k_high (sizeof_xnu_arm64_boot_args c)\<rparr>,
      \<lparr>kind = ExtraScratchData,
       base = kernel_end_pa c + align_64k_high T8030_MAX_DEVICETREE_SIZE + ramdisk_reserved c +
              align_64k_high (sizeof_xnu_arm64_boot_args c),
       rsize = align_64k_high (sizeof_AllocatedData c)\<rparr>]"
  by (simp add: boot_regions_def T8030_memory_layout_def ms_defs Let_def kernel_end_pa_def
      kernel_base_pa_def ramdisk_reserved_def)

text \<open>
  Claim C3, as amended.  In a run in which the virtual base is a multiple of 64 KiB, the
  trust cache ends at or below the base of the loaded kernel or starts at or above the end
  of the extra data, the kernel's physical span does not run over \<open>2 ^ 64\<close>, and what
  is reserved from the end of the kernel on fits below \<open>2 ^ 64\<close>, any two of the placed
  regions (trust cache, loaded kernel, device tree, ramdisk if present, boot arguments,
  extra data) are disjoint.
\<close>

theorem boot_regions_disjoint:
  assumes al: "virt_base c AND 0xffff = 0"
      and tc: "unat (T8030_PHYS_BASE + align_64k_high 0x2000000) +
               unat (align_64k_high (trustcache_file_size c)) \<le> unat (kernel_base_pa c) \<or>
               unat (kernel_end_pa c) + reserved_after_kernel c \<le>
               unat (T8030_PHYS_BASE + align_64k_high 0x2000000)"
      and ks: "unat (kernel_base_pa c) + unat (align_64k_high (kernel_high c) - kernel_low c)
               < 2 ^ 64"
      and fit: "unat (kernel_end_pa c) + reserved_after_kernel c < 2 ^ 64"
  shows "pairwise_disjoint (boot_regions c)"
proof -
  define K where "K = kernel_end_pa c"
  define D where "D = align_64k_high T8030_MAX_DEVICETREE_SIZE"
  define R where "R = ramdisk_reserved c"
  define B where "B = align_64k_high (sizeof_xnu_arm64_boot_args c)"
  define E where "E = align_64k_high (sizeof_AllocatedData c)"
  define P1 where "P1 = T8030_PHYS_BASE + align_64k_high 0x2000000"
  define T where "T = align_64k_high (trustcache_file_size c)"
  define kb where "kb = kernel_base_pa c"
  define ksz where "ksz = align_64k_high (kernel_high c) - kernel_low c"
  have fit': "unat K + unat D + unat R + unat B + unat E < 2 ^ 64"
    using fit by (simp add: reserved_after_kernel_def K_def D_def R_def B_def E_def)
  have tc': "unat P1 + unat T \<le> unat kb \<or>
             unat K + unat D + unat R + unat B + unat E \<le> unat P1"
    using tc
    unfolding reserved_after_kernel_def P1_def T_def kb_def K_def D_def R_def B_def E_def
    by linarith
  have "K = kb + ksz" unfolding K_def kb_def ksz_def by (rule kernel_end_pa_eq [OF al])
  moreover have "unat (kb + ksz) = unat kb + unat ksz"
    using ks by (intro unat_add_nowrap) (simp add: kb_def ksz_def)
  ultimately have uK: "unat kb + unat ksz = unat K" by simp
  have u4: "unat (K + D) = unat K + unat D"
    using fit' by (intro unat_add_nowrap) simp
  have u5: "unat (K + D + R) = unat K + unat D + unat R"
    using fit' u4 by (subst unat_add_nowrap) simp_all
  have u6: "unat (K + D + R + B) = unat K + unat D + unat R + unat B"
    using fit' u5 by (subst unat_add_nowrap) simp_all
  have regs: "boot_regions c =
     [\<lparr>kind = TrustCache, base = P1, rsize = T\<rparr>,
      \<lparr>kind = LoadedKernel, base = kb, rsize = ksz\<rparr>,
      \<lparr>kind = DeviceTreeBlob, base = K, rsize = D\<rparr>] @
     (if ramdisk_filename c \<noteq> [] then [\<lparr>kind = Ramdisk, base = K + D, rsize = R\<rparr>] else []) @
     [\<lparr>kind = BootArgsStruct, base = K + D + R, rsize = B\<rparr>,
      \<lparr>kind = ExtraScratchData, base = K + D + R + B, rsize = E\<rparr>]"
    unfolding boot_regions_values K_def D_def R_def B_def E_def P1_def T_def kb_def ksz_def ..
  from tc' show ?thesis
  proof
    assume "unat P1 + unat T \<le> unat kb"
    then show ?thesis
      unfolding regs using uK u4 u5 u6 by (simp add: disjoint_def)
  next
    assume "unat K + unat D + unat R + unat B + unat E \<le> unat P1"
    then show ?thesis
      unfolding regs using uK u4 u5 u6 by (simp add: disjoint_def)
  qed
qed

text \<open>The theorem at the example run with a ramdisk, where the four conditions hold.\<close>

theorem boot_regions_disjoint_witness:
  "pairwise_disjoint (boot_regions example_inputs_ramdisk)"
  using boot_regions_disjoint [of example_inputs_ramdisk]
  by (simp add: example_inputs_ramdisk_def example_inputs_def kernel_end_pa_def kernel_base_pa_def
      reserved_after_kernel_def ramdisk_reserved_def T8030_PHYS_BASE_def
      T8030_MAX_DEVICETREE_SIZE_def align_64k_high_def vtop_static_def)

text \<open>
  Claim C3 as stated fails: with a kernel that ends at \<open>0x41FF0000\<close> the device tree is
  given \<open>0x41FF0000\<close> to \<open>0x42030000\<close>, which contains the trust cache at
  \<open>0x42000000\<close> to \<open>0x42010000\<close>.
\<close>

theorem devicetree_over_trustcache_counterexample:
  "\<not> pairwise_disjoint (boot_regions example_inputs_overlap) \<and>
   boot_regions example_inputs_overlap ! 0 =
     \<lparr>kind = TrustCache, base = 0x42000000, rsize = 0x10000\<rparr> \<and>
   boot_regions example_inputs_overlap ! 2 =
     \<lparr>kind = DeviceTreeBlob, base = 0x41FF0000, rsize = 0x40000\<rparr>"
  by (simp add: boot_regions_values disjoint_def example_inputs_overlap_def example_inputs_def
      kernel_end_pa_def kernel_base_pa_def ramdisk_reserved_def T8030_PHYS_BASE_def
      T8030_MAX_DEVICETREE_SIZE_def align_64k_high_def vtop_static_def)

subsection \<open>The sizes and the placements\<close>

text \<open>
  Claim C4, as amended.  The DRAM size handed to the kernel is the distance from
  \<open>T8030_PHYS_BASE\<close> to the cursor taken before the extra data is reserved, plus the
  configured RAM size minus \<open>used_ram_for_blobs\<close>, in 64-bit arithmetic; and
  \<open>used_ram_for_blobs\<close> is the sum of the kernel span, the reserved device-tree size and
  the reserved boot-arguments size.  The trust cache and the ramdisk are not counted.
\<close>

theorem dram_size_formula:
  "mem_size (T8030_memory_layout c) =
     (allocated_ram_pa (T8030_memory_layout c) - T8030_PHYS_BASE) +
     (ram_size c - used_ram_for_blobs (T8030_memory_layout c)) \<and>
   dram_size (T8030_memory_layout c) = mem_size (T8030_memory_layout c) \<and>
   allocated_ram_pa (T8030_memory_layout c) =
     phys_ptr (ms_bootargs c (ms_ramdisk c (ms_devicetree (ms_kernel c
       (ms_trustcache_load c (ms_trustcache_reserve (ms_begin c))))))) \<and>
   used_ram_for_blobs (T8030_memory_layout c) =
     (align_64k_high (kernel_high c) - kernel_low c) +
     align_64k_high T8030_MAX_DEVICETREE_SIZE +
     align_64k_high (sizeof_xnu_arm64_boot_args c)"
  by (simp add: T8030_memory_layout_def ms_defs Let_def)

text \<open>
  Claim C4 as stated fails: in the example run with a ramdisk, \<open>used_ram_for_blobs\<close> is
  not the sum over the trust cache, the kernel span, the device tree, the ramdisk and the
  boot arguments.
\<close>

theorem used_ram_for_blobs_counterexample:
  "used_ram_for_blobs (T8030_memory_layout example_inputs_ramdisk) \<noteq>
     align_64k_high (trustcache_size (T8030_memory_layout example_inputs_ramdisk)) +
     (align_64k_high (kernel_high example_inputs_ramdisk) - kernel_low example_inputs_ramdisk) +
     align_64k_high T8030_MAX_DEVICETREE_SIZE +
     ramdisk_size (T8030_memory_layout example_inputs_ramdisk) +
     align_64k_high (sizeof_xnu_arm64_boot_args example_inputs_ramdisk)"
  by (simp add: example_inputs_ramdisk_def example_inputs_def T8030_memory_layout_def ms_defs
      Let_def T8030_PHYS_BASE_def T8030_MAX_DEVICETREE_SIZE_def align_64k_high_def
      vtop_static_def)

text \<open>
  Claim C5, as amended.  When the ramdisk file name is empty, \<^verbatim>\<open>ramdisk_file_dev.pa\<close>
  and \<open>ramdisk_size\<close> are 0, the boot arguments are placed exactly at the reserved end of
  the device tree, and the extra data exactly
  \<open>align_64k_high (sizeof (struct xnu_arm64_boot_args))\<close> bytes after it.
\<close>

theorem no_ramdisk_placement:
  assumes "ramdisk_filename c = []"
  shows "ramdisk_file_dev_pa (T8030_memory_layout c) = 0 \<and>
         ramdisk_size (T8030_memory_layout c) = 0 \<and>
         kbootargs_pa (T8030_memory_layout c) =
           dtb_pa (T8030_memory_layout c) + align_64k_high T8030_MAX_DEVICETREE_SIZE \<and>
         extra_data_pa (T8030_memory_layout c) =
           dtb_pa (T8030_memory_layout c) + align_64k_high T8030_MAX_DEVICETREE_SIZE +
           align_64k_high (sizeof_xnu_arm64_boot_args c)"
  using assms by (simp add: T8030_memory_layout_def ms_defs Let_def)

text \<open>The theorem at the example run without a ramdisk.\<close>

theorem no_ramdisk_placement_witness:
  "ramdisk_filename example_inputs = [] \<and>
   dtb_pa (T8030_memory_layout example_inputs) = 0x4A010000 \<and>
   kbootargs_pa (T8030_memory_layout example_inputs) = 0x4A050000 \<and>
   extra_data_pa (T8030_memory_layout example_inputs) = 0x4A060000"
  using no_ramdisk_placement [of example_inputs]
  by (simp add: example_inputs_def T8030_memory_layout_def ms_defs Let_def T8030_PHYS_BASE_def
      T8030_MAX_DEVICETREE_SIZE_def align_64k_high_def vtop_static_def)

text \<open>
  Claim C5 as stated fails: in the example run without a ramdisk the base of the boot
  arguments is not \<open>align_64k_high (sizeof (struct xnu_arm64_boot_args))\<close> bytes after
  the reserved end of the device tree.
\<close>

theorem bootargs_base_counterexample:
  "ramdisk_filename example_inputs = [] \<and>
   kbootargs_pa (T8030_memory_layout example_inputs) \<noteq>
     dtb_pa (T8030_memory_layout example_inputs) + align_64k_high T8030_MAX_DEVICETREE_SIZE +
     align_64k_high (sizeof_xnu_arm64_boot_args example_inputs)"
  by (simp add: example_inputs_def T8030_memory_layout_def ms_defs Let_def T8030_PHYS_BASE_def
      T8030_MAX_DEVICETREE_SIZE_def align_64k_high_def vtop_static_def)

text \<open>
  Claim C6.  For a trust cache whose loaded size is \<open>0x1000\<close>, the trust cache is placed
  at \<open>T8030_PHYS_BASE + align_64k_high 0x2000000\<close>, and after it is loaded the cursor is
  \<open>trustcache_pa + align_64k_high 0x1000\<close>.
\<close>

theorem trustcache_placement:
  assumes "trustcache_file_size c = 0x1000"
  shows "trustcache_pa (T8030_memory_layout c) = T8030_PHYS_BASE + align_64k_high 0x2000000 \<and>
         phys_ptr (ms_trustcache_load c (ms_trustcache_reserve (ms_begin c))) =
           trustcache_pa (T8030_memory_layout c) + align_64k_high 0x1000 \<and>
         trustcache_size (T8030_memory_layout c) = 0x1000"
  using assms by (simp add: T8030_memory_layout_def ms_defs Let_def)

text \<open>The theorem at the example run: the two addresses are \<open>0x42000000\<close> and \<open>0x42010000\<close>.\<close>

theorem trustcache_placement_witness:
  "trustcache_file_size example_inputs = 0x1000 \<and>
   trustcache_pa (T8030_memory_layout example_inputs) = 0x42000000 \<and>
   phys_ptr (ms_trustcache_load example_inputs (ms_trustcache_reserve (ms_begin example_inputs)))
     = 0x42010000"
  using trustcache_placement [of example_inputs]
  by (simp add: example_inputs_def T8030_PHYS_BASE_def align_64k_high_def)

subsection \<open>The assertion on the device tree\<close>

text \<open>
  Claim C7.  The run fails with the assertion exactly when the encoded size of the device
  tree is greater than \<open>T8030_MAX_DEVICETREE_SIZE\<close>: it fails at \<open>0x40000 + 1\<close> bytes
  and it does not fail at \<open>0x40000\<close> bytes.
\<close>

theorem dtb_size_assertion:
  "(T8030_memory_setup c = Inl Assertion_failed) =
     (T8030_MAX_DEVICETREE_SIZE < dtb_encoded_size c) \<and>
   isl (T8030_memory_setup c) = (T8030_MAX_DEVICETREE_SIZE < dtb_encoded_size c) \<and>
   T8030_memory_setup (c\<lparr>dtb_encoded_size := 0x40000 + 1\<rparr>) = Inl Assertion_failed \<and>
   \<not> isl (T8030_memory_setup (c\<lparr>dtb_encoded_size := 0x40000\<rparr>))"
  by (auto simp add: T8030_memory_setup_def Let_def T8030_MAX_DEVICETREE_SIZE_def)

subsection \<open>The frame-buffer flag\<close>

text \<open>
  Claim C10.  Two runs that differ only in \<^verbatim>\<open>use_ramfb\<close> compute the same boot-arguments
  base, extra-data base, top of kernel data, DRAM base and DRAM size; the extra data takes
  \<open>align_64k_high (sizeof (AllocatedData))\<close> bytes whatever the flag, and the flag only
  decides whether the video descriptor is filled for a frame buffer inside the extra data.
\<close>

theorem layout_independent_of_use_ramfb:
  "kbootargs_pa (T8030_memory_layout (c\<lparr>use_ramfb := b\<rparr>)) =
     kbootargs_pa (T8030_memory_layout c) \<and>
   extra_data_pa (T8030_memory_layout (c\<lparr>use_ramfb := b\<rparr>)) =
     extra_data_pa (T8030_memory_layout c) \<and>
   top_of_kernel_data_pa (T8030_memory_layout (c\<lparr>use_ramfb := b\<rparr>)) =
     top_of_kernel_data_pa (T8030_memory_layout c) \<and>
   dram_base (T8030_memory_layout (c\<lparr>use_ramfb := b\<rparr>)) =
     dram_base (T8030_memory_layout c) \<and>
   dram_size (T8030_memory_layout (c\<lparr>use_ramfb := b\<rparr>)) =
     dram_size (T8030_memory_layout c) \<and>
   top_of_kernel_data_pa (T8030_memory_layout (c\<lparr>use_ramfb := b\<rparr>)) =
     extra_data_pa (T8030_memory_layout (c\<lparr>use_ramfb := b\<rparr>)) +
     align_64k_high (sizeof_AllocatedData c) \<and>
   v_bootargs (T8030_memory_layout (c\<lparr>use_ramfb := b\<rparr>)) =
     (if b then Video_for (extra_data_pa (T8030_memory_layout c) + offsetof_ramfb c)
      else Video_zeroed)"
  by (simp add: T8030_memory_layout_def ms_defs Let_def)

end
